theory Spec2Isabelle
  imports Complex_Main "HOL-Library.Char_ord" "HOL-Library.List_Lexorder"
    "HOL-Library.Product_Lexorder"
begin

section \<open>Python strings and number parsing\<close>

text \<open>
  The program is \<^verbatim>\<open>px-fio-parsing/parse_fio.py\<close>. A Python \<^verbatim>\<open>str\<close> is modelled as a
  \<^typ>\<open>string\<close> whose characters are the code points below 256; a Python \<^verbatim>\<open>int\<close> is an
  \<^typ>\<open>int\<close>; a Python \<^verbatim>\<open>float\<close> is modelled by the \<^typ>\<open>real\<close> it denotes, so rounding,
  overflow and the non-finite floats (and their spellings \<^verbatim>\<open>inf\<close>, \<^verbatim>\<open>nan\<close>) are outside
  the model. \<^verbatim>\<open>None\<close> is the \<open>None\<close> of an option type, and every exception the source
  can raise is a value of \<open>py_error\<close>.
\<close>

datatype py_error = TypeError | AttributeError | ValueError

definition py_isspace :: "char \<Rightarrow> bool" where
  \<comment> \<open>the characters \<^verbatim>\<open>str.strip()\<close> removes, among the code points below 256\<close>
  "py_isspace c =
     (let n = (of_char c :: nat)
      in (9 \<le> n \<and> n \<le> 13) \<or> (28 \<le> n \<and> n \<le> 32) \<or> n = 133 \<or> n = 160)"

definition py_strip :: "string \<Rightarrow> string" where
  "py_strip s = rev (dropWhile py_isspace (rev (dropWhile py_isspace s)))"

definition num_isspace :: "char \<Rightarrow> bool" where
  \<comment> \<open>the characters \<^verbatim>\<open>int()\<close> and \<^verbatim>\<open>float()\<close> skip around a number: unlike \<^verbatim>\<open>strip()\<close>,
      not the separators 28 to 31\<close>
  "num_isspace c =
     (let n = (of_char c :: nat)
      in (9 \<le> n \<and> n \<le> 13) \<or> n = 32 \<or> n = 133 \<or> n = 160)"

definition num_strip :: "string \<Rightarrow> string" where
  "num_strip s = rev (dropWhile num_isspace (rev (dropWhile num_isspace s)))"

definition py_lower :: "char \<Rightarrow> char" where
  \<comment> \<open>\<^verbatim>\<open>str.lower()\<close> on one character\<close>
  "py_lower c =
     (let n = (of_char c :: nat)
      in if (65 \<le> n \<and> n \<le> 90) \<or> (192 \<le> n \<and> n \<le> 222 \<and> n \<noteq> 215)
         then char_of (n + 32) else c)"

definition lower :: "string \<Rightarrow> string" where
  "lower s = map py_lower s"

definition endswith :: "string \<Rightarrow> string \<Rightarrow> bool" where
  "endswith s suf = (length suf \<le> length s \<and> drop (length s - length suf) s = suf)"

definition is_digit :: "char \<Rightarrow> bool" where
  "is_digit c = (let n = (of_char c :: nat) in 48 \<le> n \<and> n \<le> 57)"

definition digit_val :: "char \<Rightarrow> int" where
  "digit_val c = of_char c - 48"

definition digits_val :: "string \<Rightarrow> int" where
  "digits_val ds = foldl (\<lambda>a c. 10 * a + digit_val c) 0 ds"

text \<open>
  A run of digits in which single underscores may separate digits, as \<^verbatim>\<open>int()\<close> and
  \<^verbatim>\<open>float()\<close> accept it. \<open>digitpart s\<close> reads the longest such run at the start of \<open>s\<close>
  and returns its digits and the rest of the string.
\<close>

fun digitpart :: "string \<Rightarrow> string \<times> string" where
  "digitpart [] = ([], [])"
| "digitpart [c] = (if is_digit c then ([c], []) else ([], [c]))"
| "digitpart (c # c' # cs) =
     (if is_digit c then
        (if c' = CHR ''_'' then
           (case cs of
              [] \<Rightarrow> ([c], c' # cs)
            | d # _ \<Rightarrow> if is_digit d then (case digitpart cs of (ds, r) \<Rightarrow> (c # ds, r))
                       else ([c], c' # cs))
         else (case digitpart (c' # cs) of (ds, r) \<Rightarrow> (c # ds, r)))
      else ([], c # c' # cs))"

definition split_sign :: "string \<Rightarrow> bool \<times> string" where
  \<comment> \<open>an optional sign; the flag says that the sign is a minus\<close>
  "split_sign s =
     (case s of
        [] \<Rightarrow> (False, [])
      | c # cs \<Rightarrow> if c = CHR ''-'' then (True, cs)
                  else if c = CHR ''+'' then (False, cs) else (False, s))"

definition py_int :: "string \<Rightarrow> int option" where
  \<comment> \<open>\<^verbatim>\<open>int(s)\<close> for a string; \<open>None\<close> is its ValueError\<close>
  "py_int s =
     (case split_sign (num_strip s) of (neg, t) \<Rightarrow>
        (case digitpart t of (ds, r) \<Rightarrow>
           if ds = [] \<or> r \<noteq> [] then None
           else Some (if neg then - digits_val ds else digits_val ds)))"

definition float_exponent :: "string \<Rightarrow> int option" where
  \<comment> \<open>the optional exponent at the end of a float literal\<close>
  "float_exponent r =
     (case r of
        [] \<Rightarrow> Some 0
      | e # r1 \<Rightarrow>
          if e = CHR ''e'' \<or> e = CHR ''E'' then
            (case split_sign r1 of (neg, r2) \<Rightarrow>
               (case digitpart r2 of (ds, r3) \<Rightarrow>
                  if ds = [] \<or> r3 \<noteq> [] then None
                  else Some (if neg then - digits_val ds else digits_val ds)))
          else None)"

definition float_mantissa :: "string \<Rightarrow> (string \<times> string \<times> string) option" where
  \<comment> \<open>integer digits, fraction digits and the rest after the mantissa\<close>
  "float_mantissa t =
     (case t of
        [] \<Rightarrow> None
      | c # cs \<Rightarrow>
          if is_digit c then
            (case digitpart t of (ip, r) \<Rightarrow>
               (case r of
                  [] \<Rightarrow> Some (ip, [], r)
                | p # r1 \<Rightarrow>
                    if p = CHR ''.'' then
                      (case digitpart r1 of (fp, r2) \<Rightarrow> Some (ip, fp, r2))
                    else Some (ip, [], r)))
          else if c = CHR ''.'' then
            (case digitpart cs of (fp, r) \<Rightarrow> if fp = [] then None else Some ([], fp, r))
          else None)"

definition scale10 :: "real \<Rightarrow> int \<Rightarrow> real" where
  "scale10 m e = (if 0 \<le> e then m * 10 ^ nat e else m / 10 ^ nat (- e))"

definition py_float :: "string \<Rightarrow> real option" where
  \<comment> \<open>\<^verbatim>\<open>float(s)\<close> for a string that spells a finite number; \<open>None\<close> is its ValueError\<close>
  "py_float s =
     (case split_sign (num_strip s) of (neg, t) \<Rightarrow>
        (case float_mantissa t of
           None \<Rightarrow> None
         | Some (ip, fp, r) \<Rightarrow>
             (case float_exponent r of
                None \<Rightarrow> None
              | Some e \<Rightarrow>
                  (let m = scale10 (real_of_int (digits_val (ip @ fp))) (e - int (length fp))
                   in Some (if neg then - m else m)))))"

section \<open>Size and unit conversion helpers\<close>

definition ns_to_ms :: "real option \<Rightarrow> real option" where
  "ns_to_ms ns_value = (case ns_value of None \<Rightarrow> None | Some x \<Rightarrow> Some (x / 1000000))"

definition us_to_ms :: "real option \<Rightarrow> real option" where
  "us_to_ms us_value = (case us_value of None \<Rightarrow> None | Some x \<Rightarrow> Some (x / 1000))"

definition kbps_to_MBps :: "real option \<Rightarrow> real option" where
  "kbps_to_MBps kb_per_s =
     (case kb_per_s of None \<Rightarrow> None | Some x \<Rightarrow> Some ((x * 1024) / 1000000))"

text \<open>
  The pattern \<^verbatim>\<open>^(\d+)([KkMmGgTtPp]?)[Bb]?$\<close> of \<^verbatim>\<open>_parse_size_to_bytes\<close>, matched against
  a stripped string: the result is the pair of groups 1 and 2. The three character
  classes are disjoint, so the greedy reading below is the only way to match.
\<close>

definition re_size_match :: "string \<Rightarrow> (string \<times> string) option" where
  "re_size_match t =
     (let ds = takeWhile is_digit t; r = dropWhile is_digit t
      in if ds = [] then None
         else
           (case (case r of
                    [] \<Rightarrow> ([], [])
                  | c # cs \<Rightarrow> if c \<in> set ''KkMmGgTtPp'' then ([c], cs) else ([], r)) of
              (u, r1) \<Rightarrow>
                (case (case r1 of
                         [] \<Rightarrow> []
                       | c # cs \<Rightarrow> if c \<in> set ''Bb'' then cs else r1) of
                   r2 \<Rightarrow> if r2 = [] then Some (ds, u) else None)))"

definition unit_power :: "string \<Rightarrow> nat" where
  \<comment> \<open>the table \<^verbatim>\<open>{"": 0, "k": 10, "m": 20, "g": 30, "t": 40, "p": 50}.get(unit, 0)\<close>\<close>
  "unit_power unit =
     (case map_of [('''', 0), (''k'', 10), (''m'', 20), (''g'', 30), (''t'', 40), (''p'', 50)] unit of
        None \<Rightarrow> 0 | Some p \<Rightarrow> p)"

definition parse_size_to_bytes :: "string option \<Rightarrow> int option" where
  \<comment> \<open>\<^verbatim>\<open>_parse_size_to_bytes\<close>; an exception inside its \<^verbatim>\<open>try\<close> gives \<open>None\<close>\<close>
  "parse_size_to_bytes v =
     (case v of
        None \<Rightarrow> None
      | Some s \<Rightarrow>
          if s = [] then None
          else
            (case re_size_match (py_strip s) of
               None \<Rightarrow> py_int s
             | Some (ds, u) \<Rightarrow> Some (digits_val ds * 2 ^ unit_power (lower u))))"

definition parse_bs_to_bytes :: "string option \<Rightarrow> int option" where
  "parse_bs_to_bytes v = parse_size_to_bytes v"

definition parse_bw_to_MBps :: "string \<Rightarrow> string \<Rightarrow> real option" where
  \<comment> \<open>\<^verbatim>\<open>_parse_bw_to_MBps\<close>\<close>
  "parse_bw_to_MBps val unit =
     (let unit1 = py_strip unit
      in case py_float val of
           None \<Rightarrow> None
         | Some v \<Rightarrow>
             (let unit_norm = lower unit1
              in if unit_norm \<in> set [''kb/s'', ''kib/s''] then Some ((v * 1024) / 1000000)
                 else if unit_norm \<in> set [''mb/s'', ''mib/s''] then Some ((v * 1024 * 1024) / 1000000)
                 else if unit_norm \<in> set [''gb/s'', ''gib/s'']
                   then Some ((v * 1024 * 1024 * 1024) / 1000000)
                 else if endswith unit_norm ''b/s'' then Some (v / 1000000)
                 else None))"

definition parse_latency_to_ms :: "string \<Rightarrow> string \<Rightarrow> real option" where
  \<comment> \<open>\<^verbatim>\<open>_parse_latency_to_ms\<close>\<close>
  "parse_latency_to_ms val unit =
     (case py_float val of
        None \<Rightarrow> None
      | Some v \<Rightarrow>
          (let u = lower unit
           in if u \<in> set [''ns'', ''nsec''] then Some (v / 1000000)
              else if u \<in> set [''us'', ''usec''] then Some (v / 1000)
              else if u \<in> set [''ms'', ''msec''] then Some v
              else None))"

section \<open>Parsed documents\<close>

text \<open>
  The value \<^verbatim>\<open>json.loads\<close> returns. A dict is an association list of its items
  (\<^verbatim>\<open>d.get(k)\<close> is \<open>map_of\<close>); \<open>JNull\<close> is \<^verbatim>\<open>None\<close>.
\<close>

datatype json =
    JNull
  | JBool bool
  | JInt int
  | JFloat real
  | JStr string
  | JList "json list"
  | JDict "(string \<times> json) list"

fun truthy :: "json \<Rightarrow> bool" where
  "truthy JNull = False"
| "truthy (JBool b) = b"
| "truthy (JInt i) = (i \<noteq> 0)"
| "truthy (JFloat r) = (r \<noteq> 0)"
| "truthy (JStr s) = (s \<noteq> [])"
| "truthy (JList xs) = (xs \<noteq> [])"
| "truthy (JDict kvs) = (kvs \<noteq> [])"

fun is_dict :: "json \<Rightarrow> bool" where
  "is_dict (JDict kvs) = True"
| "is_dict _ = False"

fun has_key :: "json \<Rightarrow> string \<Rightarrow> bool" where
  \<comment> \<open>\<^verbatim>\<open>k in d\<close>, used on dicts only\<close>
  "has_key (JDict kvs) k = (k \<in> fst ` set kvs)"
| "has_key _ k = False"

fun get_default :: "json \<Rightarrow> string \<Rightarrow> json \<Rightarrow> py_error + json" where
  \<comment> \<open>\<^verbatim>\<open>x.get(k, d)\<close>: only a dict has the method\<close>
  "get_default (JDict kvs) k d = Inr (case map_of kvs k of None \<Rightarrow> d | Some v \<Rightarrow> v)"
| "get_default _ k d = Inl AttributeError"

definition get :: "json \<Rightarrow> string \<Rightarrow> py_error + json" where
  "get x k = get_default x k JNull"

fun lookup :: "json \<Rightarrow> string \<Rightarrow> json" where
  \<comment> \<open>\<^verbatim>\<open>d.get(k)\<close> where the source has already checked that \<open>d\<close> is a dict\<close>
  "lookup (JDict kvs) k = (case map_of kvs k of None \<Rightarrow> JNull | Some v \<Rightarrow> v)"
| "lookup _ k = JNull"

fun py_iter :: "json \<Rightarrow> py_error + json list" where
  \<comment> \<open>the values a \<^verbatim>\<open>for\<close> loop over \<open>x\<close> sees\<close>
  "py_iter (JList xs) = Inr xs"
| "py_iter (JDict kvs) = Inr (map (\<lambda>kv. JStr (fst kv)) kvs)"
| "py_iter (JStr s) = Inr (map (\<lambda>c. JStr [c]) s)"
| "py_iter _ = Inl TypeError"

definition trunc :: "real \<Rightarrow> int" where
  \<comment> \<open>\<^verbatim>\<open>int(x)\<close> for a float\<close>
  "trunc r = (if 0 \<le> r then \<lfloor>r\<rfloor> else \<lceil>r\<rceil>)"

fun to_float :: "json \<Rightarrow> real option" where
  \<comment> \<open>\<^verbatim>\<open>_to_float\<close>\<close>
  "to_float JNull = None"
| "to_float (JBool b) = Some (if b then 1 else 0)"
| "to_float (JInt i) = Some (real_of_int i)"
| "to_float (JFloat r) = Some r"
| "to_float (JStr s) = py_float s"
| "to_float (JList xs) = None"
| "to_float (JDict kvs) = None"

fun to_int :: "json \<Rightarrow> int option" where
  \<comment> \<open>\<^verbatim>\<open>_to_int\<close>: \<^verbatim>\<open>int(value)\<close>, and \<^verbatim>\<open>int(float(str(value)))\<close> when that raises\<close>
  "to_int JNull = None"
| "to_int (JBool b) = Some (if b then 1 else 0)"
| "to_int (JInt i) = Some i"
| "to_int (JFloat r) = Some (trunc r)"
| "to_int (JStr s) =
     (case py_int s of
        Some i \<Rightarrow> Some i
      | None \<Rightarrow> (case py_float s of None \<Rightarrow> None | Some r \<Rightarrow> Some (trunc r)))"
| "to_int (JList xs) = None"
| "to_int (JDict kvs) = None"

fun size_text :: "json \<Rightarrow> string option" where
  \<comment> \<open>the argument of \<^verbatim>\<open>_parse_size_to_bytes\<close>: anything but a string is falsy or
      has no \<^verbatim>\<open>strip\<close>, and both give \<open>None\<close> there\<close>
  "size_text (JStr s) = Some s"
| "size_text _ = None"

definition normalize_access_pattern :: "json \<Rightarrow> string option" where
  \<comment> \<open>\<^verbatim>\<open>_normalize_access_pattern\<close>; \<^verbatim>\<open>str(rw)\<close> of a value that is not a string starts
      with a digit, a sign, a bracket or a capital letter and matches no branch\<close>
  "normalize_access_pattern rw =
     (case rw of
        JStr s \<Rightarrow>
          if s = [] then None
          else
            (let rw_l = lower s
             in if take 4 rw_l = ''rand'' then Some ''random''
                else if rw_l \<in> set [''read'', ''write'', ''rw'', ''readwrite'']
                  then Some ''sequential''
                else None)
      | _ \<Rightarrow> None)"

section \<open>The percentile resolver\<close>

text \<open>
  \<^verbatim>\<open>_find_percentile_key(percentiles, target)\<close>. The target is a float with an integral
  value \<open>n\<close> (the three call sites pass 99.0, 95.0 and 50.0). For \<open>n\<close> up to \<open>2 ^ 53\<close> the
  float is \<open>n\<close> itself, \<^verbatim>\<open>str(target)\<close> is the decimal numeral of \<open>n\<close> followed by \<^verbatim>\<open>.0\<close> and
  \<^verbatim>\<open>f"{target:.6f}"\<close> is the numeral followed by \<^verbatim>\<open>.000000\<close>; beyond that bound the float is
  rounded and \<^verbatim>\<open>str\<close> changes to the exponent notation, which \<open>str_float\<close> does not follow.

  \<^verbatim>\<open>float(key)\<close> also reads the spellings of infinity and of not-a-number, and a numeral too
  large for a float as infinity. \<open>py_float\<close> gives the real a numeral denotes and nothing
  for those spellings, so the resolver is modelled for the mappings none of whose keys
  satisfies \<open>nonfinite_spelling\<close> or \<open>float_overflows\<close>.
\<close>

definition nonfinite_spelling :: "string \<Rightarrow> bool" where
  \<comment> \<open>the strings \<^verbatim>\<open>float()\<close> reads as \<^verbatim>\<open>inf\<close>, \<^verbatim>\<open>-inf\<close> or \<^verbatim>\<open>nan\<close> by their spelling\<close>
  "nonfinite_spelling s =
     (case split_sign (num_strip s) of (neg, t) \<Rightarrow>
        lower t \<in> set [''inf'', ''infinity'', ''nan''])"


fun dec :: "nat \<Rightarrow> string" where
  "dec n = (if n < 10 then [''0123456789'' ! n] else dec (n div 10) @ [''0123456789'' ! (n mod 10)])"

declare dec.simps [simp del]

definition str_float :: "nat \<Rightarrow> string" where
  "str_float n = dec n @ ''.0''"

definition format_6f :: "nat \<Rightarrow> string" where
  "format_6f n = dec n @ ''.000000''"

definition as_pairs :: "string list \<Rightarrow> nat \<Rightarrow> (real \<times> string) list" where
  \<comment> \<open>the loop that collects \<^verbatim>\<open>(abs(float(key) - target), key)\<close> for the keys that parse\<close>
  "as_pairs keys n =
     concat (map (\<lambda>key. case py_float key of
                          None \<Rightarrow> []
                        | Some x \<Rightarrow> [(\<bar>x - real n\<bar>, key)]) keys)"

definition find_percentile_key :: "(string \<times> json) list \<Rightarrow> nat \<Rightarrow> string option" where
  "find_percentile_key percentiles n =
     (let keys = map fst percentiles
      in if str_float n \<in> set keys then Some (str_float n)
         else if format_6f n \<in> set keys then Some (format_6f n)
         else
           (let ps = as_pairs keys n
            in if ps = [] then None else Some (snd (hd (sort ps)))))"

section \<open>Rows\<close>

text \<open>
  The dataclass \<^verbatim>\<open>ParsedRow\<close>. None of its 21 fields has a default, so its constructor
  raises TypeError when a field is not passed. The source passes the first 20 fields at
  every call and \<^verbatim>\<open>total_ios\<close> at some: the constructor takes the 20 as a record and
  \<^verbatim>\<open>total_ios\<close> as a keyword argument that is passed or not. The fields \<open>jobname\<close>,
  \<open>rw\<close> and \<open>bs\<close> hold whatever the document holds, unconverted.
\<close>

type_synonym datetime = "nat \<times> nat \<times> nat \<times> nat \<times> nat \<times> nat"

record row_fields =
  source_file :: string
  task :: "string option"
  timestamp :: "datetime option"
  runner :: "string option"
  jobname :: json
  rw :: json
  access_pattern :: "string option"
  bs :: json
  bs_bytes :: "int option"
  iodepth :: "int option"
  numjobs :: "int option"
  runtime_s :: "real option"
  size_bytes :: "int option"
  op :: string
  iops :: "real option"
  bw_MBps :: "real option"
  lat_mean_ms :: "real option"
  clat_p99_ms :: "real option"
  clat_p95_ms :: "real option"
  clat_p50_ms :: "real option"

record ParsedRow = row_fields +
  total_ios :: "int option"

datatype 'a kwarg = Passed 'a | NotPassed

definition ParsedRow_init :: "row_fields \<Rightarrow> int option kwarg \<Rightarrow> py_error + ParsedRow" where
  "ParsedRow_init fs kw =
     (case kw of
        NotPassed \<Rightarrow> Inl TypeError
      | Passed t \<Rightarrow> Inr (row_fields.extend fs (ParsedRow.fields t)))"

text \<open>
  What a file contributes to each of its rows: \<^verbatim>\<open>os.path.basename(source_file)\<close>, the
  task and runner the caller resolved, and the value of
  \<^verbatim>\<open>compute_timestamp_from_path(source_file)\<close>, which depends on the path alone and
  never raises.
\<close>

record file_ids =
  f_source_file :: string
  f_task :: "string option"
  f_timestamp :: "datetime option"
  f_runner :: "string option"

section \<open>The structured extractor\<close>

definition and_then :: "py_error + 'a \<Rightarrow> ('a \<Rightarrow> py_error + 'b) \<Rightarrow> py_error + 'b" where
  "and_then m f = (case m of Inl e \<Rightarrow> Inl e | Inr x \<Rightarrow> f x)"

definition py_or :: "json \<Rightarrow> json \<Rightarrow> json" where
  \<comment> \<open>\<^verbatim>\<open>a or b\<close> where evaluating \<open>b\<close> cannot raise\<close>
  "py_or a b = (if truthy a then a else b)"

definition runtime_ms :: "json \<Rightarrow> json \<Rightarrow> py_error + json" where
  \<comment> \<open>line 163: \<^verbatim>\<open>job.get("runtime") or data.get("global options", {}).get("runtime")\<close>\<close>
  "runtime_ms data job =
     and_then (get job ''runtime'') (\<lambda>r.
       if truthy r then Inr r
       else and_then (get_default data ''global options'' (JDict [])) (\<lambda>g. get g ''runtime''))"

definition runtime_s_of :: "json \<Rightarrow> real option" where
  \<comment> \<open>lines 164 to 167\<close>
  "runtime_s_of rt =
     (let runtime_s = (if rt \<noteq> JNull then to_float rt else None)
      in case runtime_s of
           None \<Rightarrow> None
         | Some x \<Rightarrow> if x > 1000 then Some (x / 1000) else Some x)"

datatype family = Nanosecond | Microsecond | Generic

definition lat_mean :: "json \<Rightarrow> real option" where
  \<comment> \<open>lines 184 to 204, for an \<open>op_data\<close> that is a dict\<close>
  "lat_mean op_data =
     (let clat_ns = lookup op_data ''clat_ns'';
          clat_us = lookup op_data ''clat_us'';
          clat_generic = lookup op_data ''clat'';
          lat_ns = lookup op_data ''lat_ns'';
          lat_us = lookup op_data ''lat_us'';
          lat_generic = lookup op_data ''lat''
      in if is_dict clat_ns \<and> has_key clat_ns ''mean''
           then ns_to_ms (to_float (lookup clat_ns ''mean''))
         else if is_dict clat_us \<and> has_key clat_us ''mean''
           then us_to_ms (to_float (lookup clat_us ''mean''))
         else if is_dict clat_generic \<and> has_key clat_generic ''mean''
           then us_to_ms (to_float (lookup clat_generic ''mean''))
         else if is_dict lat_ns \<and> has_key lat_ns ''mean''
           then ns_to_ms (to_float (lookup lat_ns ''mean''))
         else if is_dict lat_us \<and> has_key lat_us ''mean''
           then us_to_ms (to_float (lookup lat_us ''mean''))
         else if is_dict lat_generic \<and> has_key lat_generic ''mean''
           then us_to_ms (to_float (lookup lat_generic ''mean''))
         else None)"

type_synonym pcts = "real option \<times> real option \<times> real option"

definition extract_pcts :: "json \<Rightarrow> (real option \<Rightarrow> real option) \<Rightarrow> pcts \<Rightarrow> pcts" where
  \<comment> \<open>\<^verbatim>\<open>_extract_pcts\<close>; the triple is the nonlocal \<^verbatim>\<open>(clat_p99_ms, clat_p95_ms, clat_p50_ms)\<close>\<close>
  "extract_pcts container to_ms_fn st =
     (case st of (p99, p95, p50) \<Rightarrow>
        if \<not> is_dict container then st
        else
          (case py_or (lookup container ''percentile'') (lookup container ''percentiles'') of
             JDict kvs \<Rightarrow>
               (let p99' = (case find_percentile_key kvs 99 of
                              None \<Rightarrow> p99
                            | Some k \<Rightarrow> to_ms_fn (to_float (lookup (JDict kvs) k)));
                    p95' = (case find_percentile_key kvs 95 of
                              None \<Rightarrow> p95
                            | Some k \<Rightarrow> to_ms_fn (to_float (lookup (JDict kvs) k)));
                    p50' = (case find_percentile_key kvs 50 of
                              None \<Rightarrow> p50
                            | Some k \<Rightarrow> to_ms_fn (to_float (lookup (JDict kvs) k)))
                in (p99', p95', p50'))
           | _ \<Rightarrow> st))"

definition clat_pcts :: "json \<Rightarrow> pcts" where
  \<comment> \<open>lines 207 to 231, for an \<open>op_data\<close> that is a dict\<close>
  "clat_pcts op_data =
     (let clat_ns = lookup op_data ''clat_ns'';
          clat_us = lookup op_data ''clat_us'';
          clat_generic = lookup op_data ''clat''
      in if clat_ns \<noteq> JNull then extract_pcts clat_ns ns_to_ms (None, None, None)
         else if clat_us \<noteq> JNull then extract_pcts clat_us us_to_ms (None, None, None)
         else if clat_generic \<noteq> JNull then extract_pcts clat_generic us_to_ms (None, None, None)
         else (None, None, None))"

record job_fields =
  j_jobname :: json
  j_rw :: json
  j_bs :: json
  j_iodepth :: "int option"
  j_numjobs :: "int option"
  j_runtime_s :: "real option"
  j_size_bytes :: "int option"

definition parse_op :: "file_ids \<Rightarrow> job_fields \<Rightarrow> string \<Rightarrow> json \<Rightarrow> py_error + ParsedRow" where
  \<comment> \<open>the body of the loop over \<^verbatim>\<open>("read", "write")\<close>, lines 177 to 257\<close>
  "parse_op ids jf opname op_data =
     (if \<not> is_dict op_data then Inl AttributeError
      else
        (case clat_pcts op_data of (p99, p95, p50) \<Rightarrow>
           ParsedRow_init
             \<lparr> source_file = f_source_file ids,
               task = f_task ids,
               timestamp = f_timestamp ids,
               runner = f_runner ids,
               jobname = j_jobname jf,
               rw = j_rw jf,
               access_pattern = normalize_access_pattern (j_rw jf),
               bs = j_bs jf,
               bs_bytes = parse_bs_to_bytes (size_text (j_bs jf)),
               iodepth = j_iodepth jf,
               numjobs = j_numjobs jf,
               runtime_s = j_runtime_s jf,
               size_bytes = j_size_bytes jf,
               op = opname,
               iops = to_float (lookup op_data ''iops''),
               bw_MBps = kbps_to_MBps (to_float (lookup op_data ''bw'')),
               lat_mean_ms = lat_mean op_data,
               clat_p99_ms = p99,
               clat_p95_ms = p95,
               clat_p50_ms = p50 \<rparr>
             (Passed (to_int (lookup op_data ''total_ios'')))))"

fun parse_ops :: "file_ids \<Rightarrow> job_fields \<Rightarrow> json \<Rightarrow> string list \<Rightarrow> py_error + ParsedRow list" where
  "parse_ops ids jf job [] = Inr []"
| "parse_ops ids jf job (opname # rest) =
     (if \<not> has_key job opname then parse_ops ids jf job rest
      else and_then (parse_op ids jf opname (lookup job opname)) (\<lambda>row.
             and_then (parse_ops ids jf job rest) (\<lambda>rows. Inr (row # rows))))"

definition parse_job :: "json \<Rightarrow> file_ids \<Rightarrow> json \<Rightarrow> py_error + ParsedRow list" where
  \<comment> \<open>the body of the loop over the jobs, lines 156 to 257\<close>
  "parse_job data ids job =
     and_then (get job ''jobname'') (\<lambda>jn.
     (let options = py_or (lookup job ''job options'') (JDict [])
      in and_then (get options ''rw'') (\<lambda>rw1.
         (let rwv = py_or rw1 (lookup options ''readwrite'');
              bsv = lookup options ''bs'';
              iod = to_int (lookup options ''iodepth'');
              nj = to_int (lookup options ''numjobs'')
          in and_then (runtime_ms data job) (\<lambda>rt.
             and_then (get_default job ''job options'' (JDict [])) (\<lambda>so.
             and_then (get so ''size'') (\<lambda>sz.
               parse_ops ids
                 \<lparr> j_jobname = jn, j_rw = rwv, j_bs = bsv, j_iodepth = iod, j_numjobs = nj,
                   j_runtime_s = runtime_s_of rt,
                   j_size_bytes = (case to_int sz of
                                     None \<Rightarrow> parse_size_to_bytes (size_text sz)
                                   | Some i \<Rightarrow> Some i) \<rparr>
                 job [''read'', ''write''])))))))"

fun parse_jobs :: "json \<Rightarrow> file_ids \<Rightarrow> json list \<Rightarrow> py_error + ParsedRow list" where
  "parse_jobs data ids [] = Inr []"
| "parse_jobs data ids (job # rest) =
     and_then (parse_job data ids job) (\<lambda>rows.
       and_then (parse_jobs data ids rest) (\<lambda>more. Inr (rows @ more)))"

definition parse_fio_json :: "json \<Rightarrow> file_ids \<Rightarrow> py_error + ParsedRow list" where
  "parse_fio_json data ids =
     and_then (get data ''jobs'') (\<lambda>j.
       and_then (py_iter (py_or j (JList []))) (\<lambda>jobs. parse_jobs data ids jobs))"

section \<open>Regular expressions\<close>

text \<open>
  The three patterns of the text extractor, and how \<^verbatim>\<open>re\<close> matches them: a backtracking
  matcher that returns every way a pattern can match at a position, in the order in
  which \<^verbatim>\<open>re\<close> tries them, so that the first is the match \<^verbatim>\<open>re\<close> reports. A match state is
  the character before the position (for \<^verbatim>\<open>\b\<close>), the rest of the text and the groups
  captured so far. \<open>Star\<close> is the greedy \<^verbatim>\<open>*\<close>, \<open>Lazy\<close> is \<^verbatim>\<open>*?\<close>; both repeat only a body
  that has consumed a character, as every body in these patterns does.
\<close>

datatype rx =
    Eps
  | Cls "char \<Rightarrow> bool"
  | Seq rx rx
  | Alt rx rx
  | Star rx
  | Lazy rx
  | Grp string rx
  | WordB

type_synonym caps = "(string \<times> string) list"

type_synonym mstate = "char option \<times> string \<times> caps"

definition is_word :: "char \<Rightarrow> bool" where
  \<comment> \<open>the characters \<^verbatim>\<open>\w\<close> matches in a \<^verbatim>\<open>str\<close> pattern, among the code points below 256\<close>
  "is_word c =
     (let n = (of_char c :: nat)
      in (48 \<le> n \<and> n \<le> 57) \<or> (65 \<le> n \<and> n \<le> 90) \<or> n = 95 \<or> (97 \<le> n \<and> n \<le> 122) \<or>
         n = 170 \<or> n = 178 \<or> n = 179 \<or> n = 181 \<or> n = 185 \<or> n = 186 \<or>
         (188 \<le> n \<and> n \<le> 190) \<or> (192 \<le> n \<and> n \<le> 214) \<or> (216 \<le> n \<and> n \<le> 246) \<or>
         248 \<le> n)"

definition word_opt :: "char option \<Rightarrow> bool" where
  "word_opt c = (case c of None \<Rightarrow> False | Some x \<Rightarrow> is_word x)"

fun ms :: "rx \<Rightarrow> char option \<Rightarrow> string \<Rightarrow> caps \<Rightarrow> mstate list" where
  "ms Eps p s c = [(p, s, c)]"
| "ms (Cls P) p s c = (case s of [] \<Rightarrow> [] | x # xs \<Rightarrow> if P x then [(Some x, xs, c)] else [])"
| "ms (Seq r1 r2) p s c = concat (map (\<lambda>(p', s', c'). ms r2 p' s' c') (ms r1 p s c))"
| "ms (Alt r1 r2) p s c = ms r1 p s c @ ms r2 p s c"
| "ms (Star r) p s c =
     concat (map (\<lambda>(p', s', c'). if length s' < length s then ms (Star r) p' s' c' else [])
                 (ms r p s c)) @ [(p, s, c)]"
| "ms (Lazy r) p s c =
     (p, s, c) #
     concat (map (\<lambda>(p', s', c'). if length s' < length s then ms (Lazy r) p' s' c' else [])
                 (ms r p s c))"
| "ms (Grp n r) p s c =
     map (\<lambda>(p', s', c'). (p', s', (n, take (length s - length s') s) # c')) (ms r p s c)"
| "ms WordB p s c =
     (if word_opt p \<noteq> word_opt (case s of [] \<Rightarrow> None | x # xs \<Rightarrow> Some x) then [(p, s, c)]
      else [])"

fun re_search_from :: "rx \<Rightarrow> char option \<Rightarrow> string \<Rightarrow> mstate option" where
  \<comment> \<open>the first position, from left to right, at which the pattern matches\<close>
  "re_search_from r p [] = (case ms r p [] [] of [] \<Rightarrow> None | m # _ \<Rightarrow> Some m)"
| "re_search_from r p (x # xs) =
     (case ms r p (x # xs) [] of [] \<Rightarrow> re_search_from r (Some x) xs | m # _ \<Rightarrow> Some m)"

definition re_search :: "rx \<Rightarrow> string \<Rightarrow> caps option" where
  \<comment> \<open>\<^verbatim>\<open>pattern.search(text)\<close>: the groups of the match, or \<open>None\<close>\<close>
  "re_search r text =
     (case re_search_from r None text of None \<Rightarrow> None | Some (p, s, c) \<Rightarrow> Some c)"

fun re_finditer_from :: "rx \<Rightarrow> char option \<Rightarrow> string \<Rightarrow> caps list" where
  \<comment> \<open>the scan resumes where the last match ended; a match of \<^verbatim>\<open>_RE_IOPS_BW\<close>, the one
      pattern scanned this way, is never empty\<close>
  "re_finditer_from r p s =
     (case re_search_from r p s of
        None \<Rightarrow> []
      | Some (p', s', c) \<Rightarrow>
          c # (if length s' < length s then re_finditer_from r p' s' else []))"

declare re_finditer_from.simps [simp del]

definition re_finditer :: "rx \<Rightarrow> string \<Rightarrow> caps list" where
  \<comment> \<open>\<^verbatim>\<open>pattern.finditer(text)\<close>: the groups of every match, in order\<close>
  "re_finditer r text = re_finditer_from r None text"

definition group :: "caps \<Rightarrow> string \<Rightarrow> string" where
  \<comment> \<open>\<^verbatim>\<open>m.group(name)\<close>; every named group of the three patterns takes part in every match\<close>
  "group c n = (case map_of c n of None \<Rightarrow> [] | Some v \<Rightarrow> v)"

fun lit :: "string \<Rightarrow> rx" where
  \<comment> \<open>literal text under \<^verbatim>\<open>re.IGNORECASE\<close>\<close>
  "lit [] = Eps"
| "lit (x # xs) = Seq (Cls (\<lambda>c. py_lower c = py_lower x)) (lit xs)"

fun seqs :: "rx list \<Rightarrow> rx" where
  "seqs [] = Eps"
| "seqs (r # rs) = Seq r (seqs rs)"

definition plus :: "rx \<Rightarrow> rx" where
  "plus r = Seq r (Star r)"

definition opt :: "rx \<Rightarrow> rx" where
  "opt r = Alt r Eps"

definition sp :: rx where
  \<comment> \<open>\<^verbatim>\<open>\s\<close>\<close>
  "sp = Cls py_isspace"

definition numdot :: rx where
  \<comment> \<open>\<^verbatim>\<open>[\d\.]\<close>\<close>
  "numdot = Cls (\<lambda>c. is_digit c \<or> c = CHR ''.'')"

definition dot :: rx where
  \<comment> \<open>\<^verbatim>\<open>.\<close> without \<^verbatim>\<open>re.DOTALL\<close>: any character but the newline\<close>
  "dot = Cls (\<lambda>c. c \<noteq> CHR 0x0A)"

definition dot_all :: rx where
  \<comment> \<open>\<^verbatim>\<open>.\<close> under \<^verbatim>\<open>re.DOTALL\<close>\<close>
  "dot_all = Cls (\<lambda>c. True)"

definition RE_LAT_AVG :: rx where
  \<comment> \<open>\<^verbatim>\<open>\b(?:clat|lat)\s*\([^)]*\):.*?avg\s*=\s*(?P<avg>[\d\.]+)\s*(?P<unit>n?sec|usec|msec|ms|us|ns)\<close>,
      with \<^verbatim>\<open>re.IGNORECASE | re.DOTALL\<close>\<close>
  "RE_LAT_AVG =
     seqs [WordB, Alt (lit ''clat'') (lit ''lat''), Star sp, lit ''('',
           Star (Cls (\<lambda>c. c \<noteq> CHR '')'')), lit ''):'', Lazy dot_all, lit ''avg'', Star sp,
           lit ''='', Star sp, Grp ''avg'' (plus numdot), Star sp,
           Grp ''unit''
             (Alt (Seq (opt (lit ''n'')) (lit ''sec''))
             (Alt (lit ''usec'') (Alt (lit ''msec'') (Alt (lit ''ms'')
             (Alt (lit ''us'') (lit ''ns''))))))]"

definition RE_IOPS_BW :: rx where
  \<comment> \<open>\<^verbatim>\<open>(?P<op>read|write):.*?IOPS\s*=\s*(?P<iops>[\d\.]+)\s*,\s*BW\s*=\s*(?P<bw_value>[\d\.]+)\s*(?P<bw_unit>(?:[KMG]i?)?B/s)\<close>,
      with \<^verbatim>\<open>re.IGNORECASE\<close>\<close>
  "RE_IOPS_BW =
     seqs [Grp ''op'' (Alt (lit ''read'') (lit ''write'')), lit '':'', Lazy dot, lit ''IOPS'',
           Star sp, lit ''='', Star sp, Grp ''iops'' (plus numdot), Star sp, lit '','', Star sp,
           lit ''BW'', Star sp, lit ''='', Star sp, Grp ''bw_value'' (plus numdot), Star sp,
           Grp ''bw_unit''
             (Seq (opt (Seq (Cls (\<lambda>c. py_lower c \<in> set ''kmg'')) (opt (lit ''i''))))
                  (lit ''B/s''))]"

definition RE_META :: rx where
  \<comment> \<open>\<^verbatim>\<open>\brw=(?P<rw>\w+).*?bs=(?P<bs>\S+)\b.*?(?:iodepth|iodepth_batch)=(?P<iodepth>\d+)\<close>,
      with \<^verbatim>\<open>re.IGNORECASE\<close>\<close>
  "RE_META =
     seqs [WordB, lit ''rw='', Grp ''rw'' (plus (Cls is_word)), Lazy dot, lit ''bs='',
           Grp ''bs'' (plus (Cls (\<lambda>c. \<not> py_isspace c))), WordB, Lazy dot,
           Alt (lit ''iodepth'') (lit ''iodepth_batch''), lit ''='',
           Grp ''iodepth'' (plus (Cls is_digit))]"

section \<open>The text extractor\<close>

definition text_row_fields ::
  "file_ids \<Rightarrow> string option \<Rightarrow> string option \<Rightarrow> int option \<Rightarrow> string \<Rightarrow>
   real option \<Rightarrow> real option \<Rightarrow> real option \<Rightarrow> row_fields" where
  \<comment> \<open>the keyword arguments both constructor calls of \<^verbatim>\<open>parse_fio_text\<close> pass\<close>
  "text_row_fields ids rwv bsv iod opname iopsv bwv latv =
     \<lparr> source_file = f_source_file ids,
       task = f_task ids,
       timestamp = f_timestamp ids,
       runner = f_runner ids,
       jobname = JNull,
       rw = (case rwv of None \<Rightarrow> JNull | Some x \<Rightarrow> JStr x),
       access_pattern = normalize_access_pattern (case rwv of None \<Rightarrow> JNull | Some x \<Rightarrow> JStr x),
       bs = (case bsv of None \<Rightarrow> JNull | Some x \<Rightarrow> JStr x),
       bs_bytes = parse_bs_to_bytes bsv,
       iodepth = iod,
       numjobs = None,
       runtime_s = None,
       size_bytes = None,
       op = opname,
       iops = iopsv,
       bw_MBps = bwv,
       lat_mean_ms = latv,
       clat_p99_ms = None,
       clat_p95_ms = None,
       clat_p50_ms = None \<rparr>"

fun text_rows ::
  "file_ids \<Rightarrow> string option \<Rightarrow> string option \<Rightarrow> int option \<Rightarrow> real option \<Rightarrow>
   caps list \<Rightarrow> py_error + ParsedRow list" where
  \<comment> \<open>the loop over \<^verbatim>\<open>_RE_IOPS_BW.finditer(text)\<close>, lines 372 to 399\<close>
  "text_rows ids rwv bsv iod latv [] = Inr []"
| "text_rows ids rwv bsv iod latv (m # matches) =
     and_then
       (ParsedRow_init
          (text_row_fields ids rwv bsv iod (lower (group m ''op''))
             (to_float (JStr (group m ''iops'')))
             (parse_bw_to_MBps (group m ''bw_value'') (group m ''bw_unit'')) latv)
          NotPassed)
       (\<lambda>row. and_then (text_rows ids rwv bsv iod latv matches) (\<lambda>rows. Inr (row # rows)))"

definition parse_fio_text :: "string \<Rightarrow> file_ids \<Rightarrow> py_error + ParsedRow list" where
  "parse_fio_text text ids =
     (let meta_match = re_search RE_META text;
          rwv = (case meta_match of None \<Rightarrow> None | Some m \<Rightarrow> Some (group m ''rw''));
          bsv = (case meta_match of None \<Rightarrow> None | Some m \<Rightarrow> Some (group m ''bs''));
          iod = (case meta_match of None \<Rightarrow> None | Some m \<Rightarrow> to_int (JStr (group m ''iodepth'')));
          lat_match = re_search RE_LAT_AVG text;
          lat_mean_ms_global =
            (case lat_match of
               None \<Rightarrow> None
             | Some m \<Rightarrow> parse_latency_to_ms (group m ''avg'') (group m ''unit''))
      in and_then (text_rows ids rwv bsv iod lat_mean_ms_global (re_finditer RE_IOPS_BW text))
           (\<lambda>rows.
              if rows = [] \<and> lat_mean_ms_global \<noteq> None then
                and_then
                  (ParsedRow_init
                     (text_row_fields ids rwv bsv iod ''unknown'' None None lat_mean_ms_global)
                     NotPassed)
                  (\<lambda>row. Inr (rows @ [row]))
              else Inr rows))"

section \<open>One file\<close>

text \<open>
  \<^verbatim>\<open>parse_file\<close> after the file has been read into \<open>content\<close>. \<^verbatim>\<open>json.loads(content)\<close> is
  the library's: its result is an input, \<open>None\<close> when it raises. The route says which
  \<^verbatim>\<open>return\<close> produced the rows: line 578 (the structured extractor), line 586 (the text
  extractor) or line 589 (the text extractor raised, a diagnostic is written).
\<close>

datatype route = Structured | Text | TextFailed

definition text_fallback :: "string \<Rightarrow> file_ids \<Rightarrow> route \<times> ParsedRow list" where
  "text_fallback content ids =
     (case parse_fio_text content ids of
        Inr rows \<Rightarrow> (Text, rows)
      | Inl e \<Rightarrow> (TextFailed, []))"

definition parse_file :: "json option \<Rightarrow> string \<Rightarrow> file_ids \<Rightarrow> route \<times> ParsedRow list" where
  "parse_file loaded content ids =
     (case loaded of
        None \<Rightarrow> text_fallback content ids
      | Some data \<Rightarrow>
          (case parse_fio_json data ids of
             Inr rows \<Rightarrow> (Structured, rows)
           | Inl e \<Rightarrow> text_fallback content ids))"

section \<open>The task name\<close>

text \<open>
  \<^verbatim>\<open>compute_task_name\<close> from \<open>rel\<close>, the path \<^verbatim>\<open>os.path.relpath\<close> returns (or the path
  itself when that raises), with \<^verbatim>\<open>/\<close> as \<^verbatim>\<open>os.sep\<close>.
\<close>

fun split_sep :: "string \<Rightarrow> string list" where
  \<comment> \<open>\<^verbatim>\<open>rel.split("/")\<close>\<close>
  "split_sep [] = [[]]"
| "split_sep (c # cs) =
     (if c = CHR ''/'' then [] # split_sep cs
      else (case split_sep cs of [] \<Rightarrow> [[c]] | p # ps \<Rightarrow> (c # p) # ps))"

definition is_ascii_letter :: "char \<Rightarrow> bool" where
  "is_ascii_letter c =
     (let n = (of_char c :: nat) in (65 \<le> n \<and> n \<le> 90) \<or> (97 \<le> n \<and> n \<le> 122))"

definition re_task_match :: "string \<Rightarrow> bool" where
  \<comment> \<open>\<^verbatim>\<open>_RE_TASK.match(part)\<close> for \<^verbatim>\<open>^parallel-\d+-[a-z]+-\<close>, ignoring case\<close>
  "re_task_match part =
     (lower (take 9 part) = ''parallel-'' \<and>
      (let r = drop 9 part; ds = takeWhile is_digit r; r1 = dropWhile is_digit r
       in ds \<noteq> [] \<and>
          (case r1 of
             [] \<Rightarrow> False
           | c # r2 \<Rightarrow>
               c = CHR ''-'' \<and>
               (let ls = takeWhile is_ascii_letter r2; r3 = dropWhile is_ascii_letter r2
                in ls \<noteq> [] \<and> (case r3 of [] \<Rightarrow> False | d # r4 \<Rightarrow> d = CHR ''-'')))))"

definition compute_task_name :: "string \<Rightarrow> string option" where
  "compute_task_name rel =
     (let parts = split_sep rel
      in case find re_task_match parts of
           Some part \<Rightarrow> Some part
         | None \<Rightarrow> if length parts > 1 then Some (parts ! 0) else None)"

section \<open>Runner-normalised throughput\<close>














section \<open>Where a row's latency comes from\<close>

text \<open>
  The branch conditions of the two cascades of \<^verbatim>\<open>parse_fio_json\<close>, by themselves.
  \<open>mean_family\<close> names the completion-latency container whose branch (lines 192 to 198)
  sets \<^verbatim>\<open>lat_mean_ms\<close>; it is \<open>None\<close> when none of the three branches is taken (the mean
  then comes from a \<^verbatim>\<open>lat\<close> container or is absent). \<open>pct_family\<close> names the container
  that lines 226 to 231 pass to \<^verbatim>\<open>_extract_pcts\<close>.
\<close>

definition container :: "family \<Rightarrow> json \<Rightarrow> json" where
  "container f op_data =
     (case f of
        Nanosecond \<Rightarrow> lookup op_data ''clat_ns''
      | Microsecond \<Rightarrow> lookup op_data ''clat_us''
      | Generic \<Rightarrow> lookup op_data ''clat'')"





definition row_view :: "py_error + ParsedRow list \<Rightarrow> py_error + (string \<times> real option \<times> real option \<times> real option \<times> real option) list" where
  \<comment> \<open>the columns \<^verbatim>\<open>op\<close>, \<^verbatim>\<open>runtime_s\<close>, \<^verbatim>\<open>iops\<close>, \<^verbatim>\<open>lat_mean_ms\<close>, \<^verbatim>\<open>clat_p99_ms\<close> of a result\<close>
  "row_view res =
     (case res of
        Inl e \<Rightarrow> Inl e
      | Inr rows \<Rightarrow>
          Inr (map (\<lambda>r. (op r, runtime_s r, iops r, lat_mean_ms r, clat_p99_ms r)) rows))"


section \<open>Size expansion\<close>






























section \<open>Bandwidth units of the text extractor\<close>

lemma bw_unit_norm:
  "lower (py_strip ''KB/s'') = ''kb/s'' \<and> lower (py_strip ''KiB/s'') = ''kib/s'' \<and>
   lower (py_strip ''MB/s'') = ''mb/s'' \<and> lower (py_strip ''MiB/s'') = ''mib/s'' \<and>
   lower (py_strip ''GB/s'') = ''gb/s'' \<and> lower (py_strip ''GiB/s'') = ''gib/s''"
  by code_simp

lemma bw_units_end: "u \<in> set [''kb/s'', ''kib/s'', ''mb/s'', ''mib/s'', ''gb/s'', ''gib/s''] \<Longrightarrow> endswith u ''b/s''"
  by (auto simp: endswith_def)

lemma parse_bw_cases:
  "parse_bw_to_MBps val unit =
     (case py_float val of
        None \<Rightarrow> None
      | Some v \<Rightarrow>
          if lower (py_strip unit) \<in> set [''kb/s'', ''kib/s''] then Some ((v * 1024) / 1000000)
          else if lower (py_strip unit) \<in> set [''mb/s'', ''mib/s''] then Some ((v * 1024 * 1024) / 1000000)
          else if lower (py_strip unit) \<in> set [''gb/s'', ''gib/s'']
            then Some ((v * 1024 * 1024 * 1024) / 1000000)
          else if endswith (lower (py_strip unit)) ''b/s'' then Some (v / 1000000)
          else None)"
  by (simp add: parse_bw_to_MBps_def Let_def split: option.split)

text \<open>
  C10, as stated, fails: it says that a unit token that does not end in \<^verbatim>\<open>B/s\<close> gives an
  absent result. The source lower-cases the token before it compares, so \<^verbatim>\<open>kb/s\<close>, which
  does not end in \<^verbatim>\<open>B/s\<close>, is read as KiB/s.
\<close>

theorem parse_bw_to_MBps_not_case_sensitive:
  "\<not> endswith ''kb/s'' ''B/s'' \<and> parse_bw_to_MBps ''1'' ''kb/s'' = Some (1024 / 1000000)"
  by code_simp

text \<open>
  C10, amended: the unit token is compared after \<^verbatim>\<open>strip()\<close> and \<^verbatim>\<open>lower()\<close>. For a value
  string that \<^verbatim>\<open>float()\<close> reads as \<open>v\<close>, \<^verbatim>\<open>KB/s\<close> and \<^verbatim>\<open>KiB/s\<close> both give
  \<open>v * 1024 / 10^6\<close>, \<^verbatim>\<open>MB/s\<close> and \<^verbatim>\<open>MiB/s\<close> both \<open>v * 1024^2 / 10^6\<close>, \<^verbatim>\<open>GB/s\<close> and
  \<^verbatim>\<open>GiB/s\<close> both \<open>v * 1024^3 / 10^6\<close>; any other token whose stripped, lower-cased form
  ends in \<^verbatim>\<open>b/s\<close> gives \<open>v / 10^6\<close>; a token whose stripped, lower-cased form does not end
  in \<^verbatim>\<open>b/s\<close> gives \<open>None\<close>; and two tokens with the same stripped, lower-cased form give
  the same result.
\<close>

theorem parse_bw_to_MBps_units:
  "(\<forall>val v. py_float val = Some v \<longrightarrow>
      parse_bw_to_MBps val ''KB/s'' = Some (v * 1024 / 10 ^ 6) \<and>
      parse_bw_to_MBps val ''KiB/s'' = Some (v * 1024 / 10 ^ 6) \<and>
      parse_bw_to_MBps val ''MB/s'' = Some (v * 1024 ^ 2 / 10 ^ 6) \<and>
      parse_bw_to_MBps val ''MiB/s'' = Some (v * 1024 ^ 2 / 10 ^ 6) \<and>
      parse_bw_to_MBps val ''GB/s'' = Some (v * 1024 ^ 3 / 10 ^ 6) \<and>
      parse_bw_to_MBps val ''GiB/s'' = Some (v * 1024 ^ 3 / 10 ^ 6)) \<and>
   (\<forall>val v unit. py_float val = Some v \<and> endswith (lower (py_strip unit)) ''b/s'' \<and>
      lower (py_strip unit) \<notin> set [''kb/s'', ''kib/s'', ''mb/s'', ''mib/s'', ''gb/s'', ''gib/s''] \<longrightarrow>
      parse_bw_to_MBps val unit = Some (v / 10 ^ 6)) \<and>
   (\<forall>val unit. \<not> endswith (lower (py_strip unit)) ''b/s'' \<longrightarrow> parse_bw_to_MBps val unit = None) \<and>
   (\<forall>val unit unit'. lower (py_strip unit) = lower (py_strip unit') \<longrightarrow>
      parse_bw_to_MBps val unit = parse_bw_to_MBps val unit')"
proof -
  have a: "parse_bw_to_MBps val ''KB/s'' = Some (v * 1024 / 10 ^ 6) \<and>
      parse_bw_to_MBps val ''KiB/s'' = Some (v * 1024 / 10 ^ 6) \<and>
      parse_bw_to_MBps val ''MB/s'' = Some (v * 1024 ^ 2 / 10 ^ 6) \<and>
      parse_bw_to_MBps val ''MiB/s'' = Some (v * 1024 ^ 2 / 10 ^ 6) \<and>
      parse_bw_to_MBps val ''GB/s'' = Some (v * 1024 ^ 3 / 10 ^ 6) \<and>
      parse_bw_to_MBps val ''GiB/s'' = Some (v * 1024 ^ 3 / 10 ^ 6)"
    if "py_float val = Some v" for val v
    using that bw_unit_norm by (simp add: parse_bw_cases)
  have b: "parse_bw_to_MBps val unit = Some (v / 10 ^ 6)"
    if "py_float val = Some v \<and> endswith (lower (py_strip unit)) ''b/s'' \<and>
      lower (py_strip unit) \<notin> set [''kb/s'', ''kib/s'', ''mb/s'', ''mib/s'', ''gb/s'', ''gib/s'']"
    for val v unit
    using that by (simp add: parse_bw_cases)
  have c: "parse_bw_to_MBps val unit = None"
    if h: "\<not> endswith (lower (py_strip unit)) ''b/s''" for val unit
  proof -
    from h bw_units_end[of "lower (py_strip unit)"]
    have "lower (py_strip unit) \<notin> set [''kb/s'', ''kib/s'', ''mb/s'', ''mib/s'', ''gb/s'', ''gib/s'']"
      by blast
    with h show ?thesis by (simp add: parse_bw_cases split: option.splits)
  qed
  have d: "parse_bw_to_MBps val unit = parse_bw_to_MBps val unit'"
    if "lower (py_strip unit) = lower (py_strip unit')" for val unit unit'
    using that by (simp add: parse_bw_cases split: option.split)
  from a b c d show ?thesis by blast
qed

text \<open>The amended C10 at the value \<^verbatim>\<open>"2"\<close> and the tokens \<^verbatim>\<open>KB/s\<close>, \<^verbatim>\<open>TB/s\<close>, \<^verbatim>\<open>MB\<close>, \<^verbatim>\<open>kib/S\<close>.\<close>

theorem parse_bw_to_MBps_units_witness:
  "parse_bw_to_MBps ''2'' ''KB/s'' = Some (2 * 1024 / 10 ^ 6) \<and>
   parse_bw_to_MBps ''2'' ''KiB/s'' = Some (2 * 1024 / 10 ^ 6) \<and>
   parse_bw_to_MBps ''2'' ''TB/s'' = Some (2 / 10 ^ 6) \<and>
   parse_bw_to_MBps ''2'' ''MB'' = None \<and>
   parse_bw_to_MBps ''2'' ''kib/S'' = parse_bw_to_MBps ''2'' '' KiB/s''"
proof -
  have f: "py_float ''2'' = Some 2" by code_simp
  have t: "endswith (lower (py_strip ''TB/s'')) ''b/s'' \<and>
      lower (py_strip ''TB/s'') \<notin> set [''kb/s'', ''kib/s'', ''mb/s'', ''mib/s'', ''gb/s'', ''gib/s'']"
    by code_simp
  have m: "\<not> endswith (lower (py_strip ''MB'')) ''b/s''" by code_simp
  have e: "lower (py_strip ''kib/S'') = lower (py_strip '' KiB/s'')" by code_simp
  from parse_bw_to_MBps_units
  have s1: "\<forall>val v. py_float val = Some v \<longrightarrow>
      parse_bw_to_MBps val ''KB/s'' = Some (v * 1024 / 10 ^ 6) \<and>
      parse_bw_to_MBps val ''KiB/s'' = Some (v * 1024 / 10 ^ 6)"
   and s2: "\<forall>val v unit. py_float val = Some v \<and> endswith (lower (py_strip unit)) ''b/s'' \<and>
      lower (py_strip unit) \<notin> set [''kb/s'', ''kib/s'', ''mb/s'', ''mib/s'', ''gb/s'', ''gib/s''] \<longrightarrow>
      parse_bw_to_MBps val unit = Some (v / 10 ^ 6)"
   and s3: "\<forall>val unit. \<not> endswith (lower (py_strip unit)) ''b/s'' \<longrightarrow> parse_bw_to_MBps val unit = None"
   and s4: "\<forall>val unit unit'. lower (py_strip unit) = lower (py_strip unit') \<longrightarrow>
      parse_bw_to_MBps val unit = parse_bw_to_MBps val unit'"
    by blast+
  from s1[rule_format, OF f] s2[rule_format, of "''2''" 2 "''TB/s''"] f t
    s3[rule_format, OF m, of "''2''"] s4[rule_format, OF e, of "''2''"]
  show ?thesis by simp
qed

section \<open>Rows of the text extractor\<close>

lemma ParsedRow_init_NotPassed: "ParsedRow_init fs NotPassed = Inl TypeError"
  by (simp add: ParsedRow_init_def)

lemma scans_latency_only:
  "re_search RE_LAT_AVG ''clat (usec): avg=120.5'' = None"
  "re_finditer RE_IOPS_BW ''clat (usec): avg=120.5'' = []"
  "re_search RE_META ''clat (usec): avg=120.5'' = None"
  by code_simp+

lemma scans_latency_with_unit:
  "re_search RE_LAT_AVG ''clat (usec): avg=120.5 usec'' = Some [(''unit'', ''usec''), (''avg'', ''120.5'')]"
  "re_finditer RE_IOPS_BW ''clat (usec): avg=120.5 usec'' = []"
  by code_simp+

lemma latency_usec: "parse_latency_to_ms ''120.5'' ''usec'' = Some (241 / 2000)"
  by code_simp

lemma parse_fio_text_no_match:
  "re_search RE_LAT_AVG text = None \<Longrightarrow> re_finditer RE_IOPS_BW text = [] \<Longrightarrow>
   parse_fio_text text ids = Inr []"
  by (simp add: parse_fio_text_def and_then_def Let_def)

text \<open>
  Both constructor calls of \<^verbatim>\<open>parse_fio_text\<close> leave out the required field \<^verbatim>\<open>total_ios\<close>, so
  the extractor raises TypeError whenever it builds a row, and it never returns one.
\<close>

lemma text_unknown_row_raises:
  "parse_fio_text ''clat (usec): avg=120.5 usec'' ids = Inl TypeError"
  by (simp add: parse_fio_text_def Let_def scans_latency_with_unit group_def latency_usec
      and_then_def ParsedRow_init_NotPassed del: not_None_eq)

lemma text_rows_raise: "matches \<noteq> [] \<Longrightarrow> text_rows ids rwv bsv iod latv matches = Inl TypeError"
  by (cases matches) (simp_all add: and_then_def ParsedRow_init_NotPassed)

lemma parse_fio_text_never_rows: "parse_fio_text text ids = Inr rows \<Longrightarrow> rows = []"
  by (cases "re_finditer RE_IOPS_BW text")
     (auto simp: parse_fio_text_def Let_def and_then_def ParsedRow_init_NotPassed
       split: if_splits)


lemma text_example_no_row:
  "parse_fio_text ''clat (usec): avg=120.5'' ids = Inr []"
  by (rule parse_fio_text_no_match) (rule scans_latency_only)+

lemma degraded_row_raises:
  assumes "re_finditer RE_IOPS_BW text = []"
    and "re_search RE_LAT_AVG text = Some m"
    and "parse_latency_to_ms (group m ''avg'') (group m ''unit'') = Some v"
  shows "parse_fio_text text ids = Inl TypeError"
  using assms
  by (simp add: parse_fio_text_def Let_def and_then_def ParsedRow_init_NotPassed del: not_None_eq)

lemma text_fallback_raises:
  "parse_fio_text text ids = Inl e \<Longrightarrow> parse_file None text ids = (TextFailed, [])"
  by (simp add: parse_file_def text_fallback_def)

lemma scans_lat_msec:
  "re_finditer RE_IOPS_BW ''lat (msec): avg=2 ms'' = []"
  "re_search RE_LAT_AVG ''lat (msec): avg=2 ms'' = Some [(''unit'', ''ms''), (''avg'', ''2'')]"
  by code_simp+

lemma latency_msec:
  "parse_latency_to_ms (group [(''unit'', ''ms''), (''avg'', ''2'')] ''avg'')
     (group [(''unit'', ''ms''), (''avg'', ''2'')] ''unit'') = Some 2"
  by code_simp

text \<open>
  C3: the code does not do what the claim says. When the throughput scan finds no match
  and the latency scan finds an average, \<^verbatim>\<open>parse_fio_text\<close> goes on to build the one row
  with \<^verbatim>\<open>op = "unknown"\<close> (line 401: "try to create a single generic row"), but its
  constructor call leaves out the required field \<^verbatim>\<open>total_ios\<close>, which the call of the
  structured extractor passes. The call raises TypeError, \<^verbatim>\<open>parse_file\<close> catches it and the
  file yields no row. In \<^verbatim>\<open>clat (usec): avg=120.5 usec\<close> the throughput scan finds nothing,
  the latency scan finds 120.5 with the unit \<^verbatim>\<open>usec\<close>, which is 241/2000 ms, and the
  extractor raises instead of returning the row. (In the claim's own example,
  \<^verbatim>\<open>clat (usec): avg=120.5\<close>, no unit token follows the number, the latency scan finds
  nothing and the extractor returns no row: \<open>text_example_no_row\<close>.)
\<close>

theorem text_degraded_row_raises:
  "(re_finditer RE_IOPS_BW text = [] \<and> re_search RE_LAT_AVG text = Some m \<and>
    parse_latency_to_ms (group m ''avg'') (group m ''unit'') = Some v \<longrightarrow>
      parse_fio_text text ids = Inl TypeError \<and>
      parse_file None text ids = (TextFailed, [])) \<and>
   re_finditer RE_IOPS_BW ''clat (usec): avg=120.5 usec'' = [] \<and>
   re_search RE_LAT_AVG ''clat (usec): avg=120.5 usec''
     = Some [(''unit'', ''usec''), (''avg'', ''120.5'')] \<and>
   parse_latency_to_ms ''120.5'' ''usec'' = Some (241 / 2000) \<and>
   parse_fio_text ''clat (usec): avg=120.5 usec'' ids = Inl TypeError \<and>
   parse_file None ''clat (usec): avg=120.5 usec'' ids = (TextFailed, [])"
proof -
  have g: "parse_fio_text text ids = Inl TypeError \<and> parse_file None text ids = (TextFailed, [])"
    if "re_finditer RE_IOPS_BW text = [] \<and> re_search RE_LAT_AVG text = Some m \<and>
        parse_latency_to_ms (group m ''avg'') (group m ''unit'') = Some v"
  proof -
    from that have r: "parse_fio_text text ids = Inl TypeError"
      by (simp add: degraded_row_raises)
    from r text_fallback_raises[OF r] show ?thesis by blast
  qed
  have u: "parse_fio_text ''clat (usec): avg=120.5 usec'' ids = Inl TypeError"
    by (rule text_unknown_row_raises)
  from g u text_fallback_raises[OF u] scans_latency_with_unit latency_usec
  show ?thesis by blast
qed

text \<open>
  The same at another text: \<^verbatim>\<open>lat (msec): avg=2 ms\<close> has no throughput line and an average
  latency of 2 ms, and the extractor raises.
\<close>

theorem text_degraded_row_raises_witness:
  "re_finditer RE_IOPS_BW ''lat (msec): avg=2 ms'' = [] \<and>
   re_search RE_LAT_AVG ''lat (msec): avg=2 ms'' = Some [(''unit'', ''ms''), (''avg'', ''2'')] \<and>
   parse_fio_text ''lat (msec): avg=2 ms''
     \<lparr> f_source_file = ''fio.log'', f_task = None, f_timestamp = None, f_runner = None \<rparr>
   = Inl TypeError \<and>
   parse_file None ''lat (msec): avg=2 ms''
     \<lparr> f_source_file = ''fio.log'', f_task = None, f_timestamp = None, f_runner = None \<rparr>
   = (TextFailed, [])"
  using text_degraded_row_raises[of "''lat (msec): avg=2 ms''"
      "[(''unit'', ''ms''), (''avg'', ''2'')]" 2
      "\<lparr> f_source_file = ''fio.log'', f_task = None, f_timestamp = None, f_runner = None \<rparr>"]
    scans_lat_msec latency_msec
  by blast

section \<open>The fallback of a file\<close>

lemma parse_fio_json_not_dict: "\<not> is_dict data \<Longrightarrow> parse_fio_json data ids = Inl AttributeError"
  by (cases data) (simp_all add: parse_fio_json_def get_def and_then_def)

lemma parse_fio_json_no_jobs:
  "\<not> truthy (lookup (JDict kvs) ''jobs'') \<Longrightarrow> parse_fio_json (JDict kvs) ids = Inr []"
  by (simp add: parse_fio_json_def get_def and_then_def py_or_def split: option.splits)

lemma text_fallback_route: "fst (text_fallback content ids) \<noteq> Structured"
  by (simp add: text_fallback_def split: sum.splits)

lemma scans_brackets:
  "re_search RE_LAT_AVG ''[]'' = None" "re_finditer RE_IOPS_BW ''[]'' = []"
  by code_simp+

text \<open>
  C4, as stated, fails: it says that a document that parses but lacks the top-level jobs
  list falls back to the text extractor. \<^verbatim>\<open>parse_fio_json\<close> reads
  \<^verbatim>\<open>data.get("jobs") or []\<close>, so such a mapping gives the empty list without an exception
  and \<^verbatim>\<open>parse_file\<close> returns it from the structured path: for the content \<^verbatim>\<open>{}\<close> the text
  extractor is not run.
\<close>

theorem parse_file_missing_jobs:
  "parse_file (Some (JDict [])) ''{}''
     \<lparr> f_source_file = ''fio.json'', f_task = None, f_timestamp = None, f_runner = None \<rparr>
   = (Structured, [])"
  by (simp add: parse_file_def parse_fio_json_no_jobs)

text \<open>
  C4, amended: \<^verbatim>\<open>parse_file\<close> falls back to the text extractor on the same content when
  the content is not parseable as a document, and when it parses but the structured
  extractor raises, as it does for every top-level value that is not a mapping; a
  mapping whose \<^verbatim>\<open>jobs\<close> entry is missing or falsy gives the empty list from the structured
  path, and the text extractor is not run.
\<close>

theorem parse_file_fallback:
  "parse_file None content ids = text_fallback content ids \<and>
   (\<forall>data e. parse_fio_json data ids = Inl e \<longrightarrow>
      parse_file (Some data) content ids = text_fallback content ids) \<and>
   (\<forall>data. \<not> is_dict data \<longrightarrow> parse_file (Some data) content ids = text_fallback content ids) \<and>
   (\<forall>kvs. \<not> truthy (lookup (JDict kvs) ''jobs'') \<longrightarrow>
      parse_file (Some (JDict kvs)) content ids = (Structured, [])) \<and>
   fst (text_fallback content ids) \<noteq> Structured"
proof -
  have a: "parse_file None content ids = text_fallback content ids" by (simp add: parse_file_def)
  have b: "\<forall>data e. parse_fio_json data ids = Inl e \<longrightarrow>
      parse_file (Some data) content ids = text_fallback content ids"
    by (simp add: parse_file_def)
  have c: "\<forall>data. \<not> is_dict data \<longrightarrow> parse_file (Some data) content ids = text_fallback content ids"
    by (simp add: parse_file_def parse_fio_json_not_dict)
  have d: "\<forall>kvs. \<not> truthy (lookup (JDict kvs) ''jobs'') \<longrightarrow>
      parse_file (Some (JDict kvs)) content ids = (Structured, [])"
    by (simp add: parse_file_def parse_fio_json_no_jobs)
  from a b c d text_fallback_route show ?thesis by blast
qed

text \<open>
  The amended C4 at the content \<^verbatim>\<open>[]\<close>, a top-level list, which falls back, and at the
  content \<^verbatim>\<open>{}\<close>, which does not.
\<close>

theorem parse_file_fallback_witness:
  "parse_file (Some (JList [])) ''[]''
     \<lparr> f_source_file = ''fio.log'', f_task = None, f_timestamp = None, f_runner = None \<rparr>
   = (Text, []) \<and>
   parse_file (Some (JDict [])) ''{}''
     \<lparr> f_source_file = ''fio.log'', f_task = None, f_timestamp = None, f_runner = None \<rparr>
   = (Structured, [])"
proof -
  let ?ids = "\<lparr> f_source_file = ''fio.log'', f_task = None, f_timestamp = None, f_runner = None \<rparr>"
  have n: "\<not> is_dict (JList [])" by simp
  have t: "\<not> truthy (lookup (JDict []) ''jobs'')" by simp
  have f: "text_fallback ''[]'' ?ids = (Text, [])"
    by (simp add: text_fallback_def parse_fio_text_no_match[OF scans_brackets])
  from parse_file_fallback[of "''[]''" ?ids] n
  have r1: "parse_file (Some (JList [])) ''[]'' ?ids = text_fallback ''[]'' ?ids" by blast
  from parse_file_fallback[of "''{}''" ?ids] t
  have r2: "parse_file (Some (JDict [])) ''{}'' ?ids = (Structured, [])" by blast
  from r1 r2 f show ?thesis by simp
qed

section \<open>The task of a file\<close>

lemma find_first:
  "(\<forall>q \<in> set pre. \<not> P q) \<Longrightarrow> P x \<Longrightarrow> find P (pre @ x # post) = Some x"
  by (induction pre) simp_all

lemma split_sep_nonempty: "split_sep s \<noteq> []"
  by (induction s) (auto split: list.splits)

text \<open>
  C9, as stated, fails: it says that the task is absent only when no path segment is
  available. A file directly under the scan root has one segment, its name, and the
  fallback of \<^verbatim>\<open>compute_task_name\<close> takes the first segment only when there are at least
  two (\<^verbatim>\<open>if len(parts) > 1\<close>, "first directory component if available").
\<close>

theorem compute_task_name_single_segment:
  "split_sep ''fio.json'' = [''fio.json''] \<and> compute_task_name ''fio.json'' = None"
  by code_simp

text \<open>
  C9, amended: the task is the first segment of the relative path that matches
  \<^verbatim>\<open>parallel-<N>-<letters>-\<close>; when no segment matches it is the first segment if the
  path has more than one segment, and absent if the path has exactly one segment (a
  path always has at least one).
\<close>

theorem compute_task_name_spec:
  "(\<forall>pre part post.
      split_sep rel = pre @ part # post \<and> (\<forall>q \<in> set pre. \<not> re_task_match q) \<and>
      re_task_match part \<longrightarrow> compute_task_name rel = Some part) \<and>
   ((\<forall>q \<in> set (split_sep rel). \<not> re_task_match q) \<and> length (split_sep rel) > 1 \<longrightarrow>
      compute_task_name rel = Some (hd (split_sep rel))) \<and>
   ((\<forall>q \<in> set (split_sep rel). \<not> re_task_match q) \<and> length (split_sep rel) = 1 \<longrightarrow>
      compute_task_name rel = None) \<and>
   split_sep rel \<noteq> []"
proof -
  have a: "compute_task_name rel = Some part"
    if "split_sep rel = pre @ part # post \<and> (\<forall>q \<in> set pre. \<not> re_task_match q) \<and>
      re_task_match part" for pre part post
    using that by (simp add: compute_task_name_def find_first)
  have n: "find re_task_match (split_sep rel) = None"
    if "\<forall>q \<in> set (split_sep rel). \<not> re_task_match q"
    using that by (simp add: find_None_iff)
  have b: "compute_task_name rel = Some (hd (split_sep rel))"
    if "(\<forall>q \<in> set (split_sep rel). \<not> re_task_match q) \<and> length (split_sep rel) > 1"
    using that n by (simp add: compute_task_name_def hd_conv_nth split_sep_nonempty)
  have c: "compute_task_name rel = None"
    if "(\<forall>q \<in> set (split_sep rel). \<not> re_task_match q) \<and> length (split_sep rel) = 1"
    using that n by (simp add: compute_task_name_def)
  from a b c split_sep_nonempty show ?thesis by blast
qed

text \<open>The amended C9 at three paths, one for each case.\<close>

theorem compute_task_name_spec_witness:
  "compute_task_name ''out/parallel-3-abc-x/fio.json'' = Some ''parallel-3-abc-x'' \<and>
   compute_task_name ''out/run1/fio.json'' = Some ''out'' \<and>
   compute_task_name ''results.json'' = None"
proof -
  have s1: "split_sep ''out/parallel-3-abc-x/fio.json'' = [''out''] @ ''parallel-3-abc-x'' # [''fio.json'']"
    by code_simp
  have m1: "\<forall>q \<in> set [''out'']. \<not> re_task_match q" by code_simp
  have m2: "re_task_match ''parallel-3-abc-x''" by code_simp
  have s2: "split_sep ''out/run1/fio.json'' = [''out'', ''run1'', ''fio.json'']" by code_simp
  have m3: "\<forall>q \<in> set [''out'', ''run1'', ''fio.json'']. \<not> re_task_match q" by code_simp
  have s3: "split_sep ''results.json'' = [''results.json'']" by code_simp
  have m4: "\<forall>q \<in> set [''results.json'']. \<not> re_task_match q" by code_simp
  from compute_task_name_spec[of "''out/parallel-3-abc-x/fio.json''"] s1 m1 m2
  have r1: "compute_task_name ''out/parallel-3-abc-x/fio.json'' = Some ''parallel-3-abc-x''"
    by blast
  from compute_task_name_spec[of "''out/run1/fio.json''"] s2 m3
  have r2: "compute_task_name ''out/run1/fio.json'' = Some ''out''" by simp
  from compute_task_name_spec[of "''results.json''"] s3 m4
  have r3: "compute_task_name ''results.json'' = None" by simp
  from r1 r2 r3 show ?thesis by blast
qed

section \<open>Resolving a percentile\<close>












text \<open>
  The spellings \<^verbatim>\<open>float()\<close> reads as an infinity or as not-a-number, and a numeral it rounds
  to an infinity.
\<close>

lemma nonfinite_keys:
  "nonfinite_spelling ''inf''" "nonfinite_spelling ''-Infinity''" "nonfinite_spelling '' NaN ''"
  "\<not> nonfinite_spelling ''infi''" "\<not> nonfinite_spelling ''+ inf''"
  by code_simp+




section \<open>Rows of the structured extractor\<close>

lemma get_dict: "is_dict x \<Longrightarrow> get x k = Inr (lookup x k)"
  by (cases x) (simp_all add: get_def)

lemma get_default_dict:
  "get_default (JDict kvs) k d = Inr (case map_of kvs k of None \<Rightarrow> d | Some v \<Rightarrow> v)"
  by simp

lemma has_key_map_of: "has_key (JDict kvs) k \<longleftrightarrow> map_of kvs k \<noteq> None"
  by (simp add: map_of_eq_None_iff)

lemma row_view_parse_op:
  "is_dict od \<Longrightarrow>
   row_view (and_then (parse_op ids jf opn od) (\<lambda>row. Inr [row])) =
     Inr [(opn, j_runtime_s jf, to_float (lookup od ''iops''), lat_mean od, fst (clat_pcts od))]"
  by (simp add: parse_op_def ParsedRow_init_def and_then_def row_view_def row_fields.defs
      ParsedRow.defs split: prod.splits)

lemma parse_ops_read_only:
  assumes "map_of jkv ''read'' = Some od" "map_of jkv ''write'' = None"
  shows "parse_ops ids jf (JDict jkv) [''read'', ''write''] =
         and_then (parse_op ids jf ''read'' od) (\<lambda>row. Inr [row])"
  using assms by (simp add: has_key_map_of and_then_def del: has_key.simps)

lemma parse_job_plain:
  assumes "map_of jkv ''job options'' = None" "runtime_ms data (JDict jkv) = Inr rt"
  shows "parse_job data ids (JDict jkv) =
         parse_ops ids
           \<lparr> j_jobname = lookup (JDict jkv) ''jobname'', j_rw = JNull, j_bs = JNull,
             j_iodepth = None, j_numjobs = None, j_runtime_s = runtime_s_of rt,
             j_size_bytes = None \<rparr>
           (JDict jkv) [''read'', ''write'']"
  using assms
  by (simp add: parse_job_def get_def py_or_def and_then_def parse_size_to_bytes_def
      del: parse_ops.simps)

lemma single_job_view:
  assumes "map_of jkv ''job options'' = None" "map_of jkv ''read'' = Some od" "is_dict od"
    "map_of jkv ''write'' = None" "runtime_ms data (JDict jkv) = Inr rt"
    "is_dict data" "lookup data ''jobs'' = JList [JDict jkv]"
  shows "row_view (parse_fio_json data ids) =
         Inr [(''read'', runtime_s_of rt, to_float (lookup od ''iops''), lat_mean od,
               fst (clat_pcts od))]"
proof -
  have j: "parse_jobs data ids [JDict jkv] = parse_job data ids (JDict jkv)"
    by (cases "parse_job data ids (JDict jkv)") (simp_all add: and_then_def)
  have "parse_fio_json data ids = parse_job data ids (JDict jkv)"
    using assms(6,7) j by (simp add: parse_fio_json_def get_dict py_or_def and_then_def)
  also have "\<dots> = and_then (parse_op ids \<lparr> j_jobname = lookup (JDict jkv) ''jobname'', j_rw = JNull, j_bs = JNull,
             j_iodepth = None, j_numjobs = None, j_runtime_s = runtime_s_of rt,
             j_size_bytes = None \<rparr> ''read'' od) (\<lambda>row. Inr [row])"
    by (simp only: parse_job_plain[OF assms(1,5)] parse_ops_read_only[OF assms(2,4)])
  finally show ?thesis
    using row_view_parse_op[OF assms(3)] by simp
qed













lemma runtime_ms_zero_job:
  "map_of jkv ''runtime'' = Some (JInt 0) \<Longrightarrow>
   runtime_ms (JDict dkv) (JDict jkv) =
     get (case map_of dkv ''global options'' of None \<Rightarrow> JDict [] | Some g \<Rightarrow> g) ''runtime''"
  by (simp add: runtime_ms_def get_def and_then_def)

text \<open>
  C5. A numeric field of a row should be a value of the input or absent, with a measured
  zero carried through as zero. Line 163 reads the runtime as
  \<^verbatim>\<open>job.get("runtime") or data.get("global options", {}).get("runtime")\<close>: a job runtime of
  0 is falsy, so it is treated as missing. For a job with \<^verbatim>\<open>runtime = 0\<close> and
  \<^verbatim>\<open>read.iops = 0\<close> in a document without global options, the row carries the zero
  \<^verbatim>\<open>iops\<close> as \<open>Some 0\<close> and has no \<^verbatim>\<open>runtime_s\<close>.
\<close>

theorem zero_runtime_is_dropped:
  "row_view (parse_fio_json
     (JDict [(''jobs'', JList [JDict [(''runtime'', JInt 0),
                                        (''read'', JDict [(''iops'', JInt 0)])]])])
     \<lparr> f_source_file = ''fio.json'', f_task = None, f_timestamp = None, f_runner = None \<rparr>)
   = Inr [(''read'', None, Some 0, None, None)]"
proof -
  let ?od = "JDict [(''iops'', JInt 0)]"
  let ?jkv = "[(''runtime'', JInt 0), (''read'', ?od)]"
  have rt: "runtime_ms (JDict [(''jobs'', JList [JDict ?jkv])]) (JDict ?jkv) = Inr JNull"
    by (simp add: runtime_ms_zero_job get_def)
  have lm: "lat_mean ?od = None" by (simp add: lat_mean_def)
  have cp: "clat_pcts ?od = (None, None, None)" by (simp add: clat_pcts_def)
  have "row_view (parse_fio_json (JDict [(''jobs'', JList [JDict ?jkv])])
     \<lparr> f_source_file = ''fio.json'', f_task = None, f_timestamp = None, f_runner = None \<rparr>)
     = Inr [(''read'', runtime_s_of JNull, to_float (lookup ?od ''iops''), lat_mean ?od,
             fst (clat_pcts ?od))]"
    by (rule single_job_view[OF _ _ _ _ rt]) simp_all
  with lm cp show ?thesis by (simp add: runtime_s_of_def)
qed


text \<open>
  C8. A job whose raw runtime is numeric and not above 1000 should store that value
  unchanged. For a job with \<^verbatim>\<open>runtime = 0\<close> in a document whose global options have
  \<^verbatim>\<open>runtime = 5000\<close>, line 163 replaces the falsy 0 by 5000 and the row stores 5 seconds.
  For every other numeric value the heuristic is as stated (\<open>runtime_heuristic\<close>,
  \<open>runtime_ms_own\<close> below).
\<close>

theorem zero_runtime_is_replaced:
  "row_view (parse_fio_json
     (JDict [(''global options'', JDict [(''runtime'', JInt 5000)]),
             (''jobs'', JList [JDict [(''runtime'', JInt 0), (''read'', JDict [])]])])
     \<lparr> f_source_file = ''fio.json'', f_task = None, f_timestamp = None, f_runner = None \<rparr>)
   = Inr [(''read'', Some 5, None, None, None)]"
proof -
  let ?od = "JDict []"
  let ?jkv = "[(''runtime'', JInt 0), (''read'', ?od)]"
  let ?data = "JDict [(''global options'', JDict [(''runtime'', JInt 5000)]),
                      (''jobs'', JList [JDict ?jkv])]"
  have rt: "runtime_ms ?data (JDict ?jkv) = Inr (JInt 5000)"
    by (simp add: runtime_ms_zero_job get_def)
  have lm: "lat_mean ?od = None" by (simp add: lat_mean_def)
  have cp: "clat_pcts ?od = (None, None, None)" by (simp add: clat_pcts_def)
  have "row_view (parse_fio_json ?data
     \<lparr> f_source_file = ''fio.json'', f_task = None, f_timestamp = None, f_runner = None \<rparr>)
     = Inr [(''read'', runtime_s_of (JInt 5000), to_float (lookup ?od ''iops''), lat_mean ?od,
             fst (clat_pcts ?od))]"
    by (rule single_job_view[OF _ _ _ _ rt]) simp_all
  with lm cp show ?thesis by (simp add: runtime_s_of_def)
qed

lemma runtime_ms_own:
  "map_of jkv ''runtime'' = Some v \<Longrightarrow> truthy v \<Longrightarrow> runtime_ms data (JDict jkv) = Inr v"
  by (simp add: runtime_ms_def get_def and_then_def)

lemma runtime_s_of_numeric:
  "runtime_s_of (JInt i) =
     Some (if 1000 < real_of_int i then real_of_int i / 1000 else real_of_int i)"
  "runtime_s_of (JFloat r) = Some (if 1000 < r then r / 1000 else r)"
  by (simp_all add: runtime_s_of_def)

lemma parse_op_runtime:
  "parse_op ids jf opn od = Inr row \<Longrightarrow> runtime_s row = j_runtime_s jf"
  by (auto simp: parse_op_def ParsedRow_init_def row_fields.defs ParsedRow.defs
      split: if_splits prod.splits)

lemma parse_ops_runtime:
  "parse_ops ids jf job ops = Inr rows \<Longrightarrow> \<forall>row \<in> set rows. runtime_s row = j_runtime_s jf"
proof (induction ops arbitrary: rows)
  case Nil
  then show ?case by simp
next
  case (Cons opn ops)
  show ?case
  proof (cases "has_key job opn")
    case False
    with Cons show ?thesis by simp
  next
    case True
    with Cons.prems obtain row rest where
      r: "parse_op ids jf opn (lookup job opn) = Inr row" and
      rs: "parse_ops ids jf job ops = Inr rest" and e: "rows = row # rest"
      by (auto simp: and_then_def split: sum.splits)
    from parse_op_runtime[OF r] Cons.IH[OF rs] e show ?thesis by simp
  qed
qed

lemma parse_job_runtime:
  assumes "parse_job data ids job = Inr rows"
  shows "\<exists>rt. runtime_ms data job = Inr rt \<and> (\<forall>row \<in> set rows. runtime_s row = runtime_s_of rt)"
proof -
  from assms obtain rt jf where rt: "runtime_ms data job = Inr rt"
    and po: "parse_ops ids jf job [''read'', ''write''] = Inr rows"
    and jr: "j_runtime_s jf = runtime_s_of rt"
    by (auto simp: parse_job_def and_then_def Let_def split: sum.splits simp del: parse_ops.simps)
  from parse_ops_runtime[OF po] jr rt show ?thesis by auto
qed

lemma runtime_heuristic:
  assumes "parse_job data ids job = Inr rows" "row \<in> set rows"
  shows "(\<forall>i. runtime_ms data job = Inr (JInt i) \<longrightarrow>
            runtime_s row = Some (if 1000 < real_of_int i then real_of_int i / 1000
                                  else real_of_int i)) \<and>
         (\<forall>r. runtime_ms data job = Inr (JFloat r) \<longrightarrow>
            runtime_s row = Some (if 1000 < r then r / 1000 else r))"
  using parse_job_runtime[OF assms(1)] assms(2) by (auto simp: runtime_s_of_numeric)

section \<open>Mean within a runner, sum across runners\<close>




















end
